theory Spec2Isabelle
  imports Main "HOL-Library.Multiset"
begin

section \<open>Data model of \<open>backend/main.py\<close>\<close>

text \<open>
  The two tables. \<open>PostDB\<close> has the string primary key \<open>id\<close>, \<open>LikeDB\<close> the integer
  primary key \<open>id\<close>; the field names carry a suffix where two classes share a name
  (\<open>id\<close>, \<open>text\<close>). A \<open>datetime\<close> is an integer (a point on the UTC time line), a
  \<open>str\<close> a \<open>string\<close>.
\<close>

record PostDB =
  id_post :: string
  text_post :: string
  timestamp :: int
  owner_id :: string
  owner_username :: string

record LikeDB =
  id_like :: nat
  user_id :: string
  post_id :: string

text \<open>The pydantic response model \<open>Post\<close>: the columns of \<open>PostDB\<close> and \<open>likes_count\<close>.\<close>

record Post = PostDB +
  likes_count :: int

record User =
  id_user :: string
  username :: string

text \<open>An entry of \<open>FAKE_USERS_DB\<close>: the identity and the plaintext password.\<close>

record UserData = User +
  password :: string

text \<open>The database behind a \<open>Session\<close>: the rows of each table in insertion order.\<close>

record db =
  posts :: "PostDB list"
  likes :: "LikeDB list"

text \<open>
  What a handler can raise: \<open>HTTPException(status, detail)\<close>, the \<open>IntegrityError\<close> of a
  commit that violates a primary key, and the \<open>IndexError\<close> of a list subscript.
\<close>

datatype error = HTTPException nat string | IntegrityError | IndexError

fun status_code :: "error \<Rightarrow> nat" where
  "status_code (HTTPException c d) = c"
| "status_code IntegrityError = 500"
| "status_code IndexError = 500"

definition HTTP_400_BAD_REQUEST :: nat where "HTTP_400_BAD_REQUEST = 400"
definition HTTP_401_UNAUTHORIZED :: nat where "HTTP_401_UNAUTHORIZED = 401"
definition HTTP_403_FORBIDDEN :: nat where "HTTP_403_FORBIDDEN = 403"
definition HTTP_404_NOT_FOUND :: nat where "HTTP_404_NOT_FOUND = 404"

section \<open>Authentication\<close>

definition FAKE_USERS_DB :: "string \<rightharpoonup> UserData" where
  "FAKE_USERS_DB = map_of
     [(''user1'', \<lparr>id_user = ''1'', username = ''user1'', password = ''password1''\<rparr>),
      (''user2'', \<lparr>id_user = ''2'', username = ''user2'', password = ''password2''\<rparr>)]"

text \<open>\<open>s.startswith(p)\<close>.\<close>

definition startswith :: "string \<Rightarrow> string \<Rightarrow> bool" where
  "startswith s p = (take (length p) s = p)"

text \<open>
  \<open>s.split(c)\<close> for a separator of one character: the pieces between the occurrences of
  \<open>c\<close>, empty pieces kept, so the result is never the empty list.
\<close>

fun split :: "string \<Rightarrow> char \<Rightarrow> string list" where
  "split [] c = [[]]"
| "split (x # xs) c =
     (if x = c then [] # split xs c
      else (let r = split xs c in (x # hd r) # tl r))"

text \<open>\<open>xs[i]\<close> for a non-negative \<open>i\<close>; out of range raises \<open>IndexError\<close>.\<close>

definition subscript :: "'a list \<Rightarrow> nat \<Rightarrow> error + 'a" where
  "subscript xs i = (if i < length xs then Inr (xs ! i) else Inl IndexError)"

definition get_current_user :: "string \<Rightarrow> error + User" where
  "get_current_user authorization =
     (if \<not> startswith authorization ''Bearer '' then
        Inl (HTTPException HTTP_401_UNAUTHORIZED ''Invalid scheme'')
      else
        (case subscript (split authorization CHR '' '') 1 of
           Inl e \<Rightarrow> Inl e
         | Inr token \<Rightarrow>
             (case FAKE_USERS_DB token of
                None \<Rightarrow> Inl (HTTPException HTTP_401_UNAUTHORIZED ''Invalid token'')
              | Some user_data \<Rightarrow>
                  Inr \<lparr>id_user = id_user user_data, username = username user_data\<rparr>)))"

text \<open>The body \<open>login\<close> returns on success.\<close>

record LoginResponse =
  access_token :: string
  token_type :: string
  user :: User

text \<open>
  \<open>form_data\<close> is a \<open>Dict[str, str]\<close>; \<open>form_data.get(k)\<close> is \<open>None\<close> for a missing key,
  and \<open>FAKE_USERS_DB.get(None)\<close> is \<open>None\<close>.
\<close>

definition login :: "(string \<rightharpoonup> string) \<Rightarrow> error + LoginResponse" where
  "login form_data =
     (let username' = form_data ''username'';
          password' = form_data ''password'';
          user' = (case username' of None \<Rightarrow> None | Some n \<Rightarrow> FAKE_USERS_DB n)
      in case user' of
           None \<Rightarrow> Inl (HTTPException HTTP_401_UNAUTHORIZED ''Incorrect username or password'')
         | Some u \<Rightarrow>
             if Some (password u) \<noteq> password' then
               Inl (HTTPException HTTP_401_UNAUTHORIZED ''Incorrect username or password'')
             else
               Inr \<lparr>access_token = username u, token_type = ''bearer'',
                    user = \<lparr>id_user = id_user u, username = username u\<rparr>\<rparr>)"

section \<open>Queries\<close>

text \<open>\<open>db.query(PostDB).filter(PostDB.id == post_id).first()\<close>\<close>

definition post_first :: "db \<Rightarrow> string \<Rightarrow> PostDB option" where
  "post_first d pid = find (\<lambda>p. id_post p = pid) (posts d)"

text \<open>\<open>db.query(LikeDB).filter(LikeDB.post_id == post_id, LikeDB.user_id == uid).first()\<close>\<close>

definition like_first :: "db \<Rightarrow> string \<Rightarrow> string \<Rightarrow> LikeDB option" where
  "like_first d pid uid = find (\<lambda>l. post_id l = pid \<and> user_id l = uid) (likes d)"

text \<open>\<open>db.query(LikeDB).filter(LikeDB.post_id == pid).count()\<close>\<close>

definition likes_count_for :: "db \<Rightarrow> string \<Rightarrow> int" where
  "likes_count_for d pid = int (length (filter (\<lambda>l. post_id l = pid) (likes d)))"

text \<open>
  \<open>order_by(PostDB.timestamp.desc())\<close>: the rows by decreasing timestamp. Rows of equal
  timestamp stay in table order here; no statement below depends on that choice.
\<close>

definition order_by_timestamp_desc :: "PostDB list \<Rightarrow> PostDB list" where
  "order_by_timestamp_desc ps = sort_key (\<lambda>p. - timestamp p) ps"

definition to_Post :: "db \<Rightarrow> PostDB \<Rightarrow> Post" where
  "to_Post d post =
     \<lparr>id_post = id_post post, text_post = text_post post, timestamp = timestamp post,
      owner_id = owner_id post, owner_username = owner_username post,
      likes_count = likes_count_for d (id_post post)\<rparr>"

definition list_posts :: "db \<Rightarrow> Post list" where
  "list_posts d = map (to_Post d) (order_by_timestamp_desc (posts d))"

definition get_user_posts :: "string \<Rightarrow> db \<Rightarrow> Post list" where
  "get_user_posts uname d =
     map (to_Post d)
       (order_by_timestamp_desc (filter (\<lambda>p. owner_username p = uname) (posts d)))"

section \<open>Mutating handlers\<close>

text \<open>
  Each handler ends in one \<open>db.commit()\<close>, so it is one transition of the stored state:
  it returns its response (or the exception) and the state after it. A handler that
  raises has committed nothing.

  \<open>create_post\<close> draws the id from \<open>uuid.uuid4()\<close> and the timestamp from the clock; both
  are arguments here. The commit fails on a primary key that is already in the table.
\<close>

definition create_post :: "string \<Rightarrow> User \<Rightarrow> string \<Rightarrow> int \<Rightarrow> db \<Rightarrow> (error + Post) \<times> db" where
  "create_post text' current_user uuid4 now d =
     (let new_post = \<lparr>id_post = uuid4, text_post = text', timestamp = now,
                      owner_id = id_user current_user,
                      owner_username = username current_user\<rparr>
      in if uuid4 \<in> set (map id_post (posts d)) then (Inl IntegrityError, d)
         else
           (Inr \<lparr>id_post = id_post new_post, text_post = text_post new_post,
                 timestamp = timestamp new_post, owner_id = owner_id new_post,
                 owner_username = owner_username new_post, likes_count = 0\<rparr>,
            d\<lparr>posts := posts d @ [new_post]\<rparr>))"

definition delete_post :: "string \<Rightarrow> User \<Rightarrow> db \<Rightarrow> (error + unit) \<times> db" where
  "delete_post pid current_user d =
     (case post_first d pid of
        None \<Rightarrow> (Inl (HTTPException HTTP_404_NOT_FOUND ''Post not found''), d)
      | Some post_to_delete \<Rightarrow>
          if owner_id post_to_delete \<noteq> id_user current_user then
            (Inl (HTTPException HTTP_403_FORBIDDEN ''Not authorized to delete this post''), d)
          else
            (Inr (),
             \<lparr>posts = filter (\<lambda>p. id_post p \<noteq> id_post post_to_delete) (posts d),
              likes = filter (\<lambda>l. post_id l \<noteq> pid) (likes d)\<rparr>))"

text \<open>
  The integer primary key of a new \<open>LikeDB\<close> row is assigned by the store: one more than
  the largest key in the table, 1 in an empty table.
\<close>

definition next_like_id :: "LikeDB list \<Rightarrow> nat" where
  "next_like_id ls = Suc (foldr (\<lambda>l m. max (id_like l) m) ls 0)"

definition like_post :: "string \<Rightarrow> User \<Rightarrow> db \<Rightarrow> (error + string) \<times> db" where
  "like_post pid current_user d =
     (case post_first d pid of
        None \<Rightarrow> (Inl (HTTPException HTTP_404_NOT_FOUND ''Post not found''), d)
      | Some post \<Rightarrow>
          (case like_first d pid (id_user current_user) of
             Some existing_like \<Rightarrow>
               (Inl (HTTPException HTTP_400_BAD_REQUEST ''Already liked this post''), d)
           | None \<Rightarrow>
               (Inr ''Post liked successfully'',
                d\<lparr>likes := likes d @
                    [\<lparr>id_like = next_like_id (likes d),
                      user_id = id_user current_user, post_id = pid\<rparr>]\<rparr>)))"

definition unlike_post :: "string \<Rightarrow> User \<Rightarrow> db \<Rightarrow> (error + string) \<times> db" where
  "unlike_post pid current_user d =
     (case post_first d pid of
        None \<Rightarrow> (Inl (HTTPException HTTP_404_NOT_FOUND ''Post not found''), d)
      | Some post \<Rightarrow>
          (case like_first d pid (id_user current_user) of
             None \<Rightarrow> (Inl (HTTPException HTTP_400_BAD_REQUEST ''Post not liked''), d)
           | Some like \<Rightarrow>
               (Inr ''Post unliked successfully'',
                d\<lparr>likes := filter (\<lambda>l. id_like l \<noteq> id_like like) (likes d)\<rparr>)))"

section \<open>Sequences of requests\<close>

text \<open>
  A request as a handler receives it: the path and body parameters, and for the
  handlers that depend on \<open>get_current_user\<close> the \<open>User\<close> it resolved (any user is
  admitted here, the two seeded ones included). A request that raises, in the handler or
  before it, leaves the state as it was.
\<close>

datatype request =
    ListPosts
  | GetUserPosts string
  | CreatePost string User string int
  | DeletePost string User
  | LikePost string User
  | UnlikePost string User

fun handle :: "db \<Rightarrow> request \<Rightarrow> db" where
  "handle d ListPosts = d"
| "handle d (GetUserPosts uname) = d"
| "handle d (CreatePost text' u uuid4 now) = snd (create_post text' u uuid4 now d)"
| "handle d (DeletePost pid u) = snd (delete_post pid u d)"
| "handle d (LikePost pid u) = snd (like_post pid u d)"
| "handle d (UnlikePost pid u) = snd (unlike_post pid u d)"

text \<open>\<open>Base.metadata.create_all\<close> on a fresh file: both tables empty.\<close>

definition empty_db :: db where
  "empty_db = \<lparr>posts = [], likes = []\<rparr>"

definition run :: "request list \<Rightarrow> db" where
  "run reqs = foldl handle empty_db reqs"

section \<open>Integrity conditions on the stored state\<close>

text \<open>The primary keys of both tables: no two rows of a table share an \<open>id\<close>.\<close>

definition primary_keys :: "db \<Rightarrow> bool" where
  "primary_keys d = (distinct (map id_post (posts d)) \<and> distinct (map id_like (likes d)))"

text \<open>Every like references a post that exists.\<close>

definition no_dangling :: "db \<Rightarrow> bool" where
  "no_dangling d = (\<forall>l \<in> set (likes d). post_id l \<in> id_post ` set (posts d))"

text \<open>At most one like for each pair of user and post.\<close>

definition unique_likes :: "db \<Rightarrow> bool" where
  "unique_likes d = distinct (map (\<lambda>l. (user_id l, post_id l)) (likes d))"

text \<open>The user with id \<open>uid\<close> has a like for the post \<open>pid\<close>.\<close>

definition liked :: "db \<Rightarrow> string \<Rightarrow> string \<Rightarrow> bool" where
  "liked d uid pid = (\<exists>l \<in> set (likes d). user_id l = uid \<and> post_id l = pid)"

text \<open>
  The requests that can take the like of user \<open>uid\<close> for post \<open>pid\<close> away: that user's
  unlike of the post, and a delete of the post.
\<close>

fun removes_like :: "string \<Rightarrow> string \<Rightarrow> request \<Rightarrow> bool" where
  "removes_like uid pid (UnlikePost p u) = (p = pid \<and> id_user u = uid)"
| "removes_like uid pid (DeletePost p u) = (p = pid)"
| "removes_like uid pid r = False"

text \<open>
  The state holds the like of user \<open>uid\<close> for the existing post \<open>pid\<close>, and the integrity
  conditions that every reachable state has.
\<close>

definition holds_like :: "string \<Rightarrow> string \<Rightarrow> db \<Rightarrow> bool" where
  "holds_like uid pid d =
     (primary_keys d \<and> unique_likes d \<and> pid \<in> id_post ` set (posts d) \<and> liked d uid pid)"

section \<open>Example data\<close>

definition user1 :: User where "user1 = \<lparr>id_user = ''1'', username = ''user1''\<rparr>"

definition user2 :: User where "user2 = \<lparr>id_user = ''2'', username = ''user2''\<rparr>"

definition post_a :: PostDB where
  "post_a = \<lparr>id_post = ''a'', text_post = ''hello'', timestamp = 5,
             owner_id = ''1'', owner_username = ''user1''\<rparr>"

definition post_b :: PostDB where
  "post_b = \<lparr>id_post = ''b'', text_post = ''world'', timestamp = 7,
             owner_id = ''2'', owner_username = ''user2''\<rparr>"

definition like_1 :: LikeDB where
  "like_1 = \<lparr>id_like = 1, user_id = ''2'', post_id = ''a''\<rparr>"

definition example_db :: db where
  "example_db = \<lparr>posts = [post_a], likes = [like_1]\<rparr>"

definition two_posts_db :: db where
  "two_posts_db = \<lparr>posts = [post_a, post_b], likes = [like_1]\<rparr>"

definition example_requests :: "request list" where
  "example_requests =
     [CreatePost ''hello'' user1 ''a'' 5, CreatePost ''world'' user2 ''b'' 7,
      LikePost ''a'' user2, LikePost ''b'' user1, DeletePost ''a'' user1]"

section \<open>Facts about the queries\<close>

lemma post_first_None: "post_first d pid = None \<longleftrightarrow> pid \<notin> id_post ` set (posts d)"
  by (auto simp: post_first_def find_None_iff)

lemma find_distinct_key:
  "distinct (map f xs) \<Longrightarrow> x \<in> set xs \<Longrightarrow> find (\<lambda>y. f y = f x) xs = Some x"
  by (induction xs) (auto simp: rev_image_eqI)

lemma post_first_Some:
  "distinct (map id_post (posts d)) \<Longrightarrow> p \<in> set (posts d) \<Longrightarrow> post_first d (id_post p) = Some p"
  by (simp add: post_first_def find_distinct_key)

lemma post_first_SomeD:
  "post_first d pid = Some p \<Longrightarrow> p \<in> set (posts d) \<and> id_post p = pid"
  by (auto simp: post_first_def find_Some_iff)

lemma post_first_cases:
  "pid \<in> id_post ` set (posts d) \<Longrightarrow> \<exists>p. post_first d pid = Some p"
  using post_first_None [of d pid] by (cases "post_first d pid") auto

lemma like_first_None:
  "like_first d pid uid = None \<longleftrightarrow> \<not> (\<exists>l \<in> set (likes d). user_id l = uid \<and> post_id l = pid)"
  by (auto simp: like_first_def find_None_iff)

lemma like_first_SomeD:
  "like_first d pid uid = Some l \<Longrightarrow> l \<in> set (likes d) \<and> user_id l = uid \<and> post_id l = pid"
  by (auto simp: like_first_def find_Some_iff)

lemma next_like_id_bound: "l \<in> set ls \<Longrightarrow> id_like l < next_like_id ls"
  unfolding next_like_id_def by (induction ls) (auto simp: less_Suc_eq_le max.coboundedI2)

lemma next_like_id_fresh: "next_like_id ls \<notin> id_like ` set ls"
  using next_like_id_bound by fastforce

lemma filter_key_remove1:
  "distinct (map f xs) \<Longrightarrow> x \<in> set xs \<Longrightarrow> filter (\<lambda>y. f y \<noteq> f x) xs = remove1 x xs"
proof (induction xs)
  case Nil
  then show ?case by simp
next
  case (Cons a xs)
  show ?case
  proof (cases "a = x")
    case True
    with Cons.prems have "\<forall>y \<in> set xs. f y \<noteq> f x" by (auto simp: rev_image_eqI)
    with True show ?thesis by simp
  next
    case False
    with Cons show ?thesis by (auto simp: rev_image_eqI)
  qed
qed

section \<open>Facts about the authorization header\<close>

lemma split_not_Nil: "split s c \<noteq> []"
  by (induction s) (auto simp: Let_def)

lemma hd_split: "hd (split s c) = takeWhile (\<lambda>x. x \<noteq> c) s"
  by (induction s) (auto simp: Let_def)

lemma startswith_iff: "startswith s p \<longleftrightarrow> (\<exists>r. s = p @ r)"
  unfolding startswith_def
  by (metis append_eq_conv_conj append_take_drop_id)

lemma split_Bearer: "split (''Bearer '' @ r) CHR '' '' = ''Bearer'' # split r CHR '' ''"
  by (simp add: Let_def)

lemma subscript_Bearer:
  "subscript (split (''Bearer '' @ r) CHR '' '') 1 = Inr (takeWhile (\<lambda>x. x \<noteq> CHR '' '') r)"
proof -
  obtain w ws where "split r CHR '' '' = w # ws"
    using split_not_Nil by (cases "split r CHR '' ''") auto
  moreover from this have "w = takeWhile (\<lambda>x. x \<noteq> CHR '' '') r"
    using hd_split [of r "CHR '' ''"] by simp
  ultimately show ?thesis
    by (simp add: split_Bearer subscript_def)
qed

lemma get_current_user_Bearer:
  "get_current_user (''Bearer '' @ r) =
     (case FAKE_USERS_DB (takeWhile (\<lambda>x. x \<noteq> CHR '' '') r) of
        None \<Rightarrow> Inl (HTTPException 401 ''Invalid token'')
      | Some ud \<Rightarrow> Inr \<lparr>id_user = id_user ud, username = username ud\<rparr>)"
proof -
  have "startswith (''Bearer '' @ r) ''Bearer ''" by (simp add: startswith_def)
  then show ?thesis
    unfolding get_current_user_def
    by (simp only: subscript_Bearer HTTP_401_UNAUTHORIZED_def not_True_eq_False if_False sum.case)
qed

lemma FAKE_USERS_DB_username: "FAKE_USERS_DB n = Some ud \<Longrightarrow> username ud = n"
  by (auto simp: FAKE_USERS_DB_def split: if_splits)

lemma dom_FAKE_USERS_DB: "dom FAKE_USERS_DB = {''user1'', ''user2''}"
  by (auto simp: FAKE_USERS_DB_def split: if_splits)

lemma takeWhile_word: "c \<notin> set w \<Longrightarrow> takeWhile (\<lambda>x. x \<noteq> c) (w @ c # rest) = w"
  by (induction w) auto

lemma takeWhile_whole: "c \<notin> set w \<Longrightarrow> takeWhile (\<lambda>x. x \<noteq> c) w = w"
  by (induction w) auto

section \<open>Deleting a post\<close>

text \<open>
  C2. \<open>delete_post\<close> answers 404 when no post has the id, with the state as it was; 403
  when the post of that id belongs to someone else, with the state as it was; and
  otherwise succeeds with no content, the post gone and every like that references it
  gone, all other rows kept. The posts table has \<open>id\<close> as its primary key, so "the
  post of that id" is the one row \<open>p\<close> of a table with distinct ids.
\<close>

theorem delete_post_contract:
  "(pid \<notin> id_post ` set (posts d) \<longrightarrow>
      delete_post pid u d = (Inl (HTTPException 404 ''Post not found''), d)) \<and>
   (\<forall>p. distinct (map id_post (posts d)) \<and> p \<in> set (posts d) \<and> id_post p = pid \<longrightarrow>
      (owner_id p \<noteq> id_user u \<longrightarrow>
         delete_post pid u d =
           (Inl (HTTPException 403 ''Not authorized to delete this post''), d)) \<and>
      (owner_id p = id_user u \<longrightarrow>
         fst (delete_post pid u d) = Inr () \<and>
         posts (snd (delete_post pid u d)) = remove1 p (posts d) \<and>
         likes (snd (delete_post pid u d)) = filter (\<lambda>l. post_id l \<noteq> pid) (likes d) \<and>
         pid \<notin> id_post ` set (posts (snd (delete_post pid u d))) \<and>
         pid \<notin> post_id ` set (likes (snd (delete_post pid u d)))))"
proof (intro conjI impI allI)
  assume "pid \<notin> id_post ` set (posts d)"
  then have "post_first d pid = None" by (simp add: post_first_None)
  then show "delete_post pid u d = (Inl (HTTPException 404 ''Post not found''), d)"
    by (simp add: delete_post_def HTTP_404_NOT_FOUND_def)
next
  fix p
  assume h: "distinct (map id_post (posts d)) \<and> p \<in> set (posts d) \<and> id_post p = pid"
  then have pf: "post_first d pid = Some p" using post_first_Some by blast
  {
    assume "owner_id p \<noteq> id_user u"
    with pf show "delete_post pid u d =
           (Inl (HTTPException 403 ''Not authorized to delete this post''), d)"
      by (simp add: delete_post_def HTTP_403_FORBIDDEN_def)
  }
  assume own: "owner_id p = id_user u"
  from h have rm: "filter (\<lambda>q. id_post q \<noteq> id_post p) (posts d) = remove1 p (posts d)"
    using filter_key_remove1 [of id_post "posts d" p] by blast
  from pf own show "fst (delete_post pid u d) = Inr ()"
    by (simp add: delete_post_def)
  from pf own rm show "posts (snd (delete_post pid u d)) = remove1 p (posts d)"
    by (simp add: delete_post_def)
  from pf own show "likes (snd (delete_post pid u d)) = filter (\<lambda>l. post_id l \<noteq> pid) (likes d)"
    by (simp add: delete_post_def)
  from pf own h show "pid \<notin> id_post ` set (posts (snd (delete_post pid u d)))"
    by (auto simp: delete_post_def)
  from pf own show "pid \<notin> post_id ` set (likes (snd (delete_post pid u d)))"
    by (auto simp: delete_post_def)
qed

theorem delete_post_contract_witness:
  "delete_post ''b'' user2 example_db = (Inl (HTTPException 404 ''Post not found''), example_db) \<and>
   delete_post ''a'' user2 example_db =
     (Inl (HTTPException 403 ''Not authorized to delete this post''), example_db) \<and>
   fst (delete_post ''a'' user1 example_db) = Inr () \<and>
   posts (snd (delete_post ''a'' user1 example_db)) = [] \<and>
   likes (snd (delete_post ''a'' user1 example_db)) = []"
proof -
  have a: "''b'' \<notin> id_post ` set (posts example_db)"
    by (simp add: example_db_def post_a_def)
  have b: "distinct (map id_post (posts example_db)) \<and> post_a \<in> set (posts example_db) \<and>
           id_post post_a = ''a''"
    by (simp add: example_db_def post_a_def)
  have c: "owner_id post_a \<noteq> id_user user2" "owner_id post_a = id_user user1"
    by (simp_all add: post_a_def user1_def user2_def)
  have r: "remove1 post_a (posts example_db) = []"
          "filter (\<lambda>l. post_id l \<noteq> ''a'') (likes example_db) = []"
    by (simp_all add: example_db_def like_1_def)
  from a delete_post_contract [of "''b''" example_db user2]
  have 1: "delete_post ''b'' user2 example_db =
             (Inl (HTTPException 404 ''Post not found''), example_db)"
    by blast
  from b c delete_post_contract [of "''a''" example_db user2]
  have 2: "delete_post ''a'' user2 example_db =
     (Inl (HTTPException 403 ''Not authorized to delete this post''), example_db)"
    by blast
  from b c delete_post_contract [of "''a''" example_db user1]
  have 3: "fst (delete_post ''a'' user1 example_db) = Inr () \<and>
         posts (snd (delete_post ''a'' user1 example_db)) = remove1 post_a (posts example_db) \<and>
         likes (snd (delete_post ''a'' user1 example_db)) =
           filter (\<lambda>l. post_id l \<noteq> ''a'') (likes example_db)"
    by blast
  from 1 2 3 r show ?thesis by simp
qed

section \<open>Liking and unliking\<close>

text \<open>
  C3. \<open>like_post\<close> answers 404 when the post does not exist, whatever the likes table
  holds (the existence check comes first); 400 "Already liked this post" when the post
  exists and a like of this user for it exists; and otherwise succeeds and appends the
  one row (user, post) under a key that no other like has, leaving the posts alone.
\<close>

theorem like_post_contract:
  "(pid \<notin> id_post ` set (posts d) \<longrightarrow>
      like_post pid u d = (Inl (HTTPException 404 ''Post not found''), d)) \<and>
   (pid \<in> id_post ` set (posts d) \<and>
    (\<exists>l \<in> set (likes d). user_id l = id_user u \<and> post_id l = pid) \<longrightarrow>
      like_post pid u d = (Inl (HTTPException 400 ''Already liked this post''), d)) \<and>
   (pid \<in> id_post ` set (posts d) \<and>
    \<not> (\<exists>l \<in> set (likes d). user_id l = id_user u \<and> post_id l = pid) \<longrightarrow>
      fst (like_post pid u d) = Inr ''Post liked successfully'' \<and>
      posts (snd (like_post pid u d)) = posts d \<and>
      (\<exists>k. k \<notin> id_like ` set (likes d) \<and>
           likes (snd (like_post pid u d)) =
             likes d @ [\<lparr>id_like = k, user_id = id_user u, post_id = pid\<rparr>]))"
proof (intro conjI impI)
  assume "pid \<notin> id_post ` set (posts d)"
  then have "post_first d pid = None" by (simp add: post_first_None)
  then show "like_post pid u d = (Inl (HTTPException 404 ''Post not found''), d)"
    by (simp add: like_post_def HTTP_404_NOT_FOUND_def)
next
  assume h: "pid \<in> id_post ` set (posts d) \<and>
    (\<exists>l \<in> set (likes d). user_id l = id_user u \<and> post_id l = pid)"
  then obtain p where pf: "post_first d pid = Some p" using post_first_cases by blast
  from h have "like_first d pid (id_user u) \<noteq> None" by (simp add: like_first_None)
  then obtain l where "like_first d pid (id_user u) = Some l" by blast
  with pf show "like_post pid u d = (Inl (HTTPException 400 ''Already liked this post''), d)"
    by (simp add: like_post_def HTTP_400_BAD_REQUEST_def)
next
  assume h: "pid \<in> id_post ` set (posts d) \<and>
    \<not> (\<exists>l \<in> set (likes d). user_id l = id_user u \<and> post_id l = pid)"
  then obtain p where pf: "post_first d pid = Some p" using post_first_cases by blast
  from h have lf: "like_first d pid (id_user u) = None" by (simp add: like_first_None)
  from pf lf show "fst (like_post pid u d) = Inr ''Post liked successfully''"
    by (simp add: like_post_def)
  from pf lf show "posts (snd (like_post pid u d)) = posts d"
    by (simp add: like_post_def)
  from pf lf have "likes (snd (like_post pid u d)) =
      likes d @ [\<lparr>id_like = next_like_id (likes d), user_id = id_user u, post_id = pid\<rparr>]"
    by (simp add: like_post_def)
  then show "\<exists>k. k \<notin> id_like ` set (likes d) \<and>
           likes (snd (like_post pid u d)) =
             likes d @ [\<lparr>id_like = k, user_id = id_user u, post_id = pid\<rparr>]"
    using next_like_id_fresh by blast
qed

theorem like_post_contract_witness:
  "like_post ''b'' user1 example_db = (Inl (HTTPException 404 ''Post not found''), example_db) \<and>
   like_post ''a'' user2 example_db =
     (Inl (HTTPException 400 ''Already liked this post''), example_db) \<and>
   fst (like_post ''a'' user1 example_db) = Inr ''Post liked successfully'' \<and>
   posts (snd (like_post ''a'' user1 example_db)) = [post_a] \<and>
   (\<exists>k. k \<noteq> 1 \<and> likes (snd (like_post ''a'' user1 example_db)) =
      [like_1, \<lparr>id_like = k, user_id = ''1'', post_id = ''a''\<rparr>])"
proof -
  have a: "''b'' \<notin> id_post ` set (posts example_db)"
    by (simp add: example_db_def post_a_def)
  have b: "''a'' \<in> id_post ` set (posts example_db) \<and>
           (\<exists>l \<in> set (likes example_db). user_id l = id_user user2 \<and> post_id l = ''a'')"
    by (simp add: example_db_def post_a_def like_1_def user2_def)
  have c: "''a'' \<in> id_post ` set (posts example_db) \<and>
           \<not> (\<exists>l \<in> set (likes example_db). user_id l = id_user user1 \<and> post_id l = ''a'')"
    by (simp add: example_db_def post_a_def like_1_def user1_def)
  from a like_post_contract [of "''b''" example_db user1]
  have 1: "like_post ''b'' user1 example_db =
             (Inl (HTTPException 404 ''Post not found''), example_db)"
    by blast
  from b like_post_contract [of "''a''" example_db user2]
  have 2: "like_post ''a'' user2 example_db =
     (Inl (HTTPException 400 ''Already liked this post''), example_db)"
    by blast
  from c like_post_contract [of "''a''" example_db user1]
  have 3: "fst (like_post ''a'' user1 example_db) = Inr ''Post liked successfully'' \<and>
      posts (snd (like_post ''a'' user1 example_db)) = posts example_db \<and>
      (\<exists>k. k \<notin> id_like ` set (likes example_db) \<and>
           likes (snd (like_post ''a'' user1 example_db)) =
             likes example_db @ [\<lparr>id_like = k, user_id = id_user user1, post_id = ''a''\<rparr>])"
    by blast
  from 1 2 3 show ?thesis
    by (simp add: example_db_def like_1_def user1_def)
qed

text \<open>
  C4. \<open>unlike_post\<close> answers 404 when the post does not exist, whatever the likes table
  holds; 400 "Post not liked" when the post exists and this user has no like for it;
  and otherwise succeeds and removes one row of this user for this post, leaving every
  other row and the posts alone. The likes table has distinct primary keys.
\<close>

theorem unlike_post_contract:
  "(pid \<notin> id_post ` set (posts d) \<longrightarrow>
      unlike_post pid u d = (Inl (HTTPException 404 ''Post not found''), d)) \<and>
   (pid \<in> id_post ` set (posts d) \<and>
    \<not> (\<exists>l \<in> set (likes d). user_id l = id_user u \<and> post_id l = pid) \<longrightarrow>
      unlike_post pid u d = (Inl (HTTPException 400 ''Post not liked''), d)) \<and>
   (pid \<in> id_post ` set (posts d) \<and> distinct (map id_like (likes d)) \<and>
    (\<exists>l \<in> set (likes d). user_id l = id_user u \<and> post_id l = pid) \<longrightarrow>
      fst (unlike_post pid u d) = Inr ''Post unliked successfully'' \<and>
      posts (snd (unlike_post pid u d)) = posts d \<and>
      (\<exists>k \<in> set (likes d). user_id k = id_user u \<and> post_id k = pid \<and>
           likes (snd (unlike_post pid u d)) = remove1 k (likes d)))"
proof (intro conjI impI)
  assume "pid \<notin> id_post ` set (posts d)"
  then have "post_first d pid = None" by (simp add: post_first_None)
  then show "unlike_post pid u d = (Inl (HTTPException 404 ''Post not found''), d)"
    by (simp add: unlike_post_def HTTP_404_NOT_FOUND_def)
next
  assume h: "pid \<in> id_post ` set (posts d) \<and>
    \<not> (\<exists>l \<in> set (likes d). user_id l = id_user u \<and> post_id l = pid)"
  then obtain p where pf: "post_first d pid = Some p" using post_first_cases by blast
  from h have lf: "like_first d pid (id_user u) = None" by (simp add: like_first_None)
  with pf show "unlike_post pid u d = (Inl (HTTPException 400 ''Post not liked''), d)"
    by (simp add: unlike_post_def HTTP_400_BAD_REQUEST_def)
next
  assume h: "pid \<in> id_post ` set (posts d) \<and> distinct (map id_like (likes d)) \<and>
    (\<exists>l \<in> set (likes d). user_id l = id_user u \<and> post_id l = pid)"
  then obtain p where pf: "post_first d pid = Some p" using post_first_cases by blast
  from h have "like_first d pid (id_user u) \<noteq> None" by (simp add: like_first_None)
  then obtain k where lf: "like_first d pid (id_user u) = Some k" by blast
  then have k: "k \<in> set (likes d) \<and> user_id k = id_user u \<and> post_id k = pid"
    by (rule like_first_SomeD)
  with h have rm: "filter (\<lambda>l. id_like l \<noteq> id_like k) (likes d) = remove1 k (likes d)"
    using filter_key_remove1 [of id_like "likes d" k] by blast
  from pf lf show "fst (unlike_post pid u d) = Inr ''Post unliked successfully''"
    by (simp add: unlike_post_def)
  from pf lf show "posts (snd (unlike_post pid u d)) = posts d"
    by (simp add: unlike_post_def)
  from pf lf rm have "likes (snd (unlike_post pid u d)) = remove1 k (likes d)"
    by (simp add: unlike_post_def)
  with k show "\<exists>k \<in> set (likes d). user_id k = id_user u \<and> post_id k = pid \<and>
           likes (snd (unlike_post pid u d)) = remove1 k (likes d)"
    by blast
qed

theorem unlike_post_contract_witness:
  "unlike_post ''b'' user1 example_db = (Inl (HTTPException 404 ''Post not found''), example_db) \<and>
   unlike_post ''a'' user1 example_db = (Inl (HTTPException 400 ''Post not liked''), example_db) \<and>
   fst (unlike_post ''a'' user2 example_db) = Inr ''Post unliked successfully'' \<and>
   posts (snd (unlike_post ''a'' user2 example_db)) = [post_a] \<and>
   likes (snd (unlike_post ''a'' user2 example_db)) = []"
proof -
  have a: "''b'' \<notin> id_post ` set (posts example_db)"
    by (simp add: example_db_def post_a_def)
  have b: "''a'' \<in> id_post ` set (posts example_db) \<and>
           \<not> (\<exists>l \<in> set (likes example_db). user_id l = id_user user1 \<and> post_id l = ''a'')"
    by (simp add: example_db_def post_a_def like_1_def user1_def)
  have c: "''a'' \<in> id_post ` set (posts example_db) \<and> distinct (map id_like (likes example_db)) \<and>
           (\<exists>l \<in> set (likes example_db). user_id l = id_user user2 \<and> post_id l = ''a'')"
    by (simp add: example_db_def post_a_def like_1_def user2_def)
  from a unlike_post_contract [of "''b''" example_db user1]
  have 1: "unlike_post ''b'' user1 example_db =
             (Inl (HTTPException 404 ''Post not found''), example_db)"
    by blast
  from b unlike_post_contract [of "''a''" example_db user1]
  have 2: "unlike_post ''a'' user1 example_db =
     (Inl (HTTPException 400 ''Post not liked''), example_db)"
    by blast
  from c unlike_post_contract [of "''a''" example_db user2]
  have 3: "fst (unlike_post ''a'' user2 example_db) = Inr ''Post unliked successfully'' \<and>
      posts (snd (unlike_post ''a'' user2 example_db)) = posts example_db \<and>
      (\<exists>k \<in> set (likes example_db). user_id k = id_user user2 \<and> post_id k = ''a'' \<and>
           likes (snd (unlike_post ''a'' user2 example_db)) = remove1 k (likes example_db))"
    by blast
  from 1 2 3 show ?thesis
    by (simp add: example_db_def)
qed

section \<open>The authorization header\<close>

text \<open>
  C8. \<open>get_current_user\<close> answers 401 when the header does not begin with "Bearer ";
  for a header "Bearer " followed by \<open>r\<close> the token is \<open>r\<close> up to its first space, and the
  answer is 401 when the token is no key of \<open>FAKE_USERS_DB\<close>, and the id and username
  of the directory's entry otherwise. The subscript never raises.
\<close>

theorem get_current_user_contract:
  "(\<not> (\<exists>r. authorization = ''Bearer '' @ r) \<longrightarrow>
      get_current_user authorization = Inl (HTTPException 401 ''Invalid scheme'')) \<and>
   (\<forall>r token. authorization = ''Bearer '' @ r \<and> token = takeWhile (\<lambda>x. x \<noteq> CHR '' '') r \<longrightarrow>
      (token \<notin> dom FAKE_USERS_DB \<longrightarrow>
         get_current_user authorization = Inl (HTTPException 401 ''Invalid token'')) \<and>
      (\<forall>ud. FAKE_USERS_DB token = Some ud \<longrightarrow>
         get_current_user authorization = Inr \<lparr>id_user = id_user ud, username = token\<rparr>))"
proof (intro conjI impI allI)
  assume "\<not> (\<exists>r. authorization = ''Bearer '' @ r)"
  then have "\<not> startswith authorization ''Bearer ''" by (simp add: startswith_iff)
  then show "get_current_user authorization = Inl (HTTPException 401 ''Invalid scheme'')"
    by (simp add: get_current_user_def HTTP_401_UNAUTHORIZED_def)
next
  fix r token
  assume h: "authorization = ''Bearer '' @ r \<and> token = takeWhile (\<lambda>x. x \<noteq> CHR '' '') r"
  {
    assume "token \<notin> dom FAKE_USERS_DB"
    then have "FAKE_USERS_DB token = None" by blast
    with h get_current_user_Bearer [of r]
    show "get_current_user authorization = Inl (HTTPException 401 ''Invalid token'')"
      by simp
  }
  fix ud
  assume ud: "FAKE_USERS_DB token = Some ud"
  then have "username ud = token" by (rule FAKE_USERS_DB_username)
  with h ud get_current_user_Bearer [of r]
  show "get_current_user authorization = Inr \<lparr>id_user = id_user ud, username = token\<rparr>"
    by simp
qed

theorem get_current_user_contract_witness:
  "get_current_user ''Basic user1'' = Inl (HTTPException 401 ''Invalid scheme'') \<and>
   get_current_user ''Bearer nobody'' = Inl (HTTPException 401 ''Invalid token'') \<and>
   get_current_user ''Bearer user2'' = Inr \<lparr>id_user = ''2'', username = ''user2''\<rparr>"
proof -
  have a: "\<not> (\<exists>r. ''Basic user1'' = ''Bearer '' @ r)" by simp
  have b: "''Bearer nobody'' = ''Bearer '' @ ''nobody'' \<and>
           ''nobody'' = takeWhile (\<lambda>x. x \<noteq> CHR '' '') ''nobody''" by simp
  have b': "''nobody'' \<notin> dom FAKE_USERS_DB" by (simp add: FAKE_USERS_DB_def dom_def)
  have c: "''Bearer user2'' = ''Bearer '' @ ''user2'' \<and>
           ''user2'' = takeWhile (\<lambda>x. x \<noteq> CHR '' '') ''user2''" by simp
  have c': "FAKE_USERS_DB ''user2'' =
              Some \<lparr>id_user = ''2'', username = ''user2'', password = ''password2''\<rparr>"
    by (simp add: FAKE_USERS_DB_def)
  from a get_current_user_contract [of "''Basic user1''"]
  have 1: "get_current_user ''Basic user1'' = Inl (HTTPException 401 ''Invalid scheme'')"
    by blast
  from b b' get_current_user_contract [of "''Bearer nobody''"]
  have 2: "get_current_user ''Bearer nobody'' = Inl (HTTPException 401 ''Invalid token'')"
    by blast
  from c c' get_current_user_contract [of "''Bearer user2''"]
  have 3: "get_current_user ''Bearer user2'' =
     Inr \<lparr>id_user = id_user \<lparr>id_user = ''2'', username = ''user2'', password = ''password2''\<rparr>,
          username = ''user2''\<rparr>"
    by blast
  from 1 2 3 show ?thesis by simp
qed

text \<open>
  C10. Only the second space-separated word of the header counts: what follows a space
  after the token is ignored, so "Bearer u anything" authenticates as the seeded user
  \<open>u\<close>, and a header with two spaces after "Bearer" has the empty token and gets 401.
\<close>

theorem get_current_user_second_word:
  "(\<forall>w rest. CHR '' '' \<notin> set w \<longrightarrow>
      get_current_user (''Bearer '' @ w @ '' '' @ rest) = get_current_user (''Bearer '' @ w)) \<and>
   (\<forall>u ud rest. FAKE_USERS_DB u = Some ud \<longrightarrow>
      get_current_user (''Bearer '' @ u @ '' '' @ rest) =
        Inr \<lparr>id_user = id_user ud, username = u\<rparr>) \<and>
   (\<forall>rest. get_current_user (''Bearer  '' @ rest) = Inl (HTTPException 401 ''Invalid token''))"
proof (intro conjI impI allI)
  fix w rest
  assume "CHR '' '' \<notin> set w"
  then show "get_current_user (''Bearer '' @ w @ '' '' @ rest) = get_current_user (''Bearer '' @ w)"
    by (simp only: get_current_user_Bearer) (simp add: takeWhile_word takeWhile_whole)
next
  fix u ud rest
  assume ud: "FAKE_USERS_DB u = Some ud"
  then have "u \<in> {''user1'', ''user2''}" using dom_FAKE_USERS_DB by blast
  then have "CHR '' '' \<notin> set u" by auto
  then have "takeWhile (\<lambda>x. x \<noteq> CHR '' '') (u @ '' '' @ rest) = u"
    by (simp add: takeWhile_word)
  with ud FAKE_USERS_DB_username [OF ud]
  show "get_current_user (''Bearer '' @ u @ '' '' @ rest) = Inr \<lparr>id_user = id_user ud, username = u\<rparr>"
    by (simp only: get_current_user_Bearer) simp
next
  fix rest
  have "FAKE_USERS_DB [] = None" by (simp add: FAKE_USERS_DB_def)
  moreover have "''Bearer  '' @ rest = ''Bearer '' @ (CHR '' '' # rest)" by simp
  ultimately show "get_current_user (''Bearer  '' @ rest) = Inl (HTTPException 401 ''Invalid token'')"
    by (simp only: get_current_user_Bearer) simp
qed

theorem get_current_user_second_word_witness:
  "get_current_user ''Bearer nobody x y'' = get_current_user ''Bearer nobody'' \<and>
   get_current_user ''Bearer user1 and more words'' =
     Inr \<lparr>id_user = ''1'', username = ''user1''\<rparr> \<and>
   get_current_user ''Bearer  user1'' = Inl (HTTPException 401 ''Invalid token'')"
proof -
  have a: "CHR '' '' \<notin> set ''nobody''" by simp
  have c': "FAKE_USERS_DB ''user1'' =
              Some \<lparr>id_user = ''1'', username = ''user1'', password = ''password1''\<rparr>"
    by (simp add: FAKE_USERS_DB_def)
  note t = get_current_user_second_word
  from a t have "get_current_user (''Bearer '' @ ''nobody'' @ '' '' @ ''x y'') =
      get_current_user (''Bearer '' @ ''nobody'')"
    by blast
  then have 1: "get_current_user ''Bearer nobody x y'' = get_current_user ''Bearer nobody''"
    by simp
  from c' t have "get_current_user (''Bearer '' @ ''user1'' @ '' '' @ ''and more words'') =
      Inr \<lparr>id_user = id_user \<lparr>id_user = ''1'', username = ''user1'', password = ''password1''\<rparr>,
           username = ''user1''\<rparr>"
    by blast
  then have 2: "get_current_user ''Bearer user1 and more words'' =
     Inr \<lparr>id_user = ''1'', username = ''user1''\<rparr>"
    by simp
  from t have "get_current_user (''Bearer  '' @ ''user1'') = Inl (HTTPException 401 ''Invalid token'')"
    by blast
  then have 3: "get_current_user ''Bearer  user1'' = Inl (HTTPException 401 ''Invalid token'')"
    by simp
  from 1 2 3 show ?thesis by simp
qed

section \<open>Login\<close>

text \<open>
  C9, as the code has it. A payload whose username or password is missing, whose
  username is not in the directory, or whose password differs from the stored one is
  rejected with status 401 (not 400); a seeded username with its own password gets the
  username as \<open>access_token\<close> and the user's identity.
\<close>

theorem login_contract:
  "((form_data ''username'' = None \<or> form_data ''password'' = None \<or>
     (\<exists>n. form_data ''username'' = Some n \<and>
        (FAKE_USERS_DB n = None \<or>
         (\<exists>ud. FAKE_USERS_DB n = Some ud \<and> form_data ''password'' \<noteq> Some (password ud))))) \<longrightarrow>
      login form_data = Inl (HTTPException 401 ''Incorrect username or password'')) \<and>
   (\<forall>n ud. form_data ''username'' = Some n \<and> FAKE_USERS_DB n = Some ud \<and>
       form_data ''password'' = Some (password ud) \<longrightarrow>
      login form_data =
        Inr \<lparr>access_token = n, token_type = ''bearer'',
             user = \<lparr>id_user = id_user ud, username = n\<rparr>\<rparr>)"
proof (intro conjI impI allI)
  assume "form_data ''username'' = None \<or> form_data ''password'' = None \<or>
     (\<exists>n. form_data ''username'' = Some n \<and>
        (FAKE_USERS_DB n = None \<or>
         (\<exists>ud. FAKE_USERS_DB n = Some ud \<and> form_data ''password'' \<noteq> Some (password ud))))"
  then show "login form_data = Inl (HTTPException 401 ''Incorrect username or password'')"
    by (auto simp: login_def Let_def HTTP_401_UNAUTHORIZED_def split: option.splits)
next
  fix n ud
  assume h: "form_data ''username'' = Some n \<and> FAKE_USERS_DB n = Some ud \<and>
       form_data ''password'' = Some (password ud)"
  then have "username ud = n" using FAKE_USERS_DB_username by blast
  with h show "login form_data =
        Inr \<lparr>access_token = n, token_type = ''bearer'',
             user = \<lparr>id_user = id_user ud, username = n\<rparr>\<rparr>"
    by (simp add: login_def Let_def)
qed

theorem login_contract_witness:
  "login (map_of [(''username'', ''user1'')]) =
     Inl (HTTPException 401 ''Incorrect username or password'') \<and>
   login (map_of [(''username'', ''user2''), (''password'', ''password1'')]) =
     Inl (HTTPException 401 ''Incorrect username or password'') \<and>
   login (map_of [(''username'', ''user2''), (''password'', ''password2'')]) =
     Inr \<lparr>access_token = ''user2'', token_type = ''bearer'',
          user = \<lparr>id_user = ''2'', username = ''user2''\<rparr>\<rparr>"
proof -
  let ?f1 = "map_of [(''username'', ''user1'')] :: string \<rightharpoonup> string"
  let ?f2 = "map_of [(''username'', ''user2''), (''password'', ''password1'')] :: string \<rightharpoonup> string"
  let ?f3 = "map_of [(''username'', ''user2''), (''password'', ''password2'')] :: string \<rightharpoonup> string"
  let ?ud = "\<lparr>id_user = ''2'', username = ''user2'', password = ''password2''\<rparr>"
  have ud: "FAKE_USERS_DB ''user2'' = Some ?ud"
    by (simp add: FAKE_USERS_DB_def)
  have a: "?f1 ''password'' = None" by simp
  have b: "?f2 ''username'' = Some ''user2'' \<and> ?f2 ''password'' \<noteq> Some (password ?ud)" by simp
  have c: "?f3 ''username'' = Some ''user2'' \<and> ?f3 ''password'' = Some (password ?ud)" by simp
  from a login_contract [of ?f1]
  have 1: "login ?f1 = Inl (HTTPException 401 ''Incorrect username or password'')"
    by blast
  from b ud login_contract [of ?f2]
  have 2: "login ?f2 = Inl (HTTPException 401 ''Incorrect username or password'')"
    by blast
  from c ud login_contract [of ?f3]
  have 3: "login ?f3 = Inr \<lparr>access_token = ''user2'', token_type = ''bearer'',
             user = \<lparr>id_user = id_user ?ud, username = ''user2''\<rparr>\<rparr>"
    by blast
  from 1 2 3 show ?thesis by simp
qed

text \<open>
  C9 as stated fails: a wrong password and a missing password are both answered 401,
  which is not a 400.
\<close>

theorem login_bad_payload_counterexample:
  "login (map_of [(''username'', ''user1''), (''password'', ''wrong'')]) =
     Inl (HTTPException 401 ''Incorrect username or password'') \<and>
   login (map_of [(''username'', ''user1'')]) =
     Inl (HTTPException 401 ''Incorrect username or password'') \<and>
   status_code (HTTPException 401 ''Incorrect username or password'') \<noteq> 400"
  by (simp add: login_def Let_def FAKE_USERS_DB_def HTTP_401_UNAUTHORIZED_def)

section \<open>Listing\<close>

lemma truncate_to_Post: "PostDB.truncate (to_Post d p) = p"
  by (simp add: to_Post_def PostDB.truncate_def)

lemma timestamp_to_Post: "timestamp (to_Post d p) = timestamp p"
  by (simp add: to_Post_def)

lemma map_truncate_to_Post: "map PostDB.truncate (map (to_Post d) ps) = ps"
  by (simp add: truncate_to_Post comp_def)

lemma mset_order_by: "mset (order_by_timestamp_desc ps) = mset ps"
  by (simp add: order_by_timestamp_desc_def)

lemma sorted_order_by:
  "sorted_wrt (\<lambda>a b. timestamp a \<ge> timestamp b) (order_by_timestamp_desc ps)"
proof -
  have "sorted (map (\<lambda>p. - timestamp p) (sort_key (\<lambda>p. - timestamp p) ps))"
    by (rule sorted_sort_key)
  then show ?thesis
    by (simp add: order_by_timestamp_desc_def sorted_map)
qed

lemma sorted_map_to_Post:
  "sorted_wrt (\<lambda>a b. timestamp a \<ge> timestamp b) ps \<Longrightarrow>
   sorted_wrt (\<lambda>a b. timestamp a \<ge> timestamp b) (map (to_Post d) ps)"
  by (simp add: sorted_wrt_map timestamp_to_Post)

lemma likes_count_to_Post:
  "likes_count (to_Post d p) =
     int (size (filter_mset (\<lambda>l. post_id l = id_post (to_Post d p)) (mset (likes d))))"
  by (simp add: to_Post_def likes_count_for_def flip: mset_filter)

text \<open>
  C6. \<open>list_posts\<close> returns every stored post exactly once (without \<open>likes_count\<close> the
  answer is a permutation of the table) by decreasing timestamp; \<open>get_user_posts\<close>
  returns exactly the posts whose \<open>owner_username\<close> is the given name, by decreasing
  timestamp; each returned post carries as \<open>likes_count\<close> the number of like rows with
  its id; and a name that owns no post gets the empty list.
\<close>

theorem listing_contract:
  "mset (map PostDB.truncate (list_posts d)) = mset (posts d) \<and>
   sorted_wrt (\<lambda>a b. timestamp a \<ge> timestamp b) (list_posts d) \<and>
   mset (map PostDB.truncate (get_user_posts uname d)) =
     filter_mset (\<lambda>p. owner_username p = uname) (mset (posts d)) \<and>
   sorted_wrt (\<lambda>a b. timestamp a \<ge> timestamp b) (get_user_posts uname d) \<and>
   (\<forall>q \<in> set (list_posts d) \<union> set (get_user_posts uname d).
      likes_count q = int (size (filter_mset (\<lambda>l. post_id l = id_post q) (mset (likes d))))) \<and>
   (uname \<notin> owner_username ` set (posts d) \<longrightarrow> get_user_posts uname d = [])"
proof (intro conjI ballI impI)
  show "mset (map PostDB.truncate (list_posts d)) = mset (posts d)"
    unfolding list_posts_def by (simp only: map_truncate_to_Post mset_order_by)
  show "sorted_wrt (\<lambda>a b. timestamp a \<ge> timestamp b) (list_posts d)"
    unfolding list_posts_def by (intro sorted_map_to_Post sorted_order_by)
  show "mset (map PostDB.truncate (get_user_posts uname d)) =
     filter_mset (\<lambda>p. owner_username p = uname) (mset (posts d))"
    unfolding get_user_posts_def by (simp only: map_truncate_to_Post mset_order_by mset_filter)
  show "sorted_wrt (\<lambda>a b. timestamp a \<ge> timestamp b) (get_user_posts uname d)"
    unfolding get_user_posts_def by (intro sorted_map_to_Post sorted_order_by)
next
  fix q
  assume "q \<in> set (list_posts d) \<union> set (get_user_posts uname d)"
  then obtain p where "q = to_Post d p"
    by (auto simp: list_posts_def get_user_posts_def)
  then show "likes_count q =
      int (size (filter_mset (\<lambda>l. post_id l = id_post q) (mset (likes d))))"
    by (simp only: likes_count_to_Post)
next
  assume "uname \<notin> owner_username ` set (posts d)"
  then have "filter (\<lambda>p. owner_username p = uname) (posts d) = []"
    by (auto simp: filter_empty_conv)
  then show "get_user_posts uname d = []"
    by (simp add: get_user_posts_def order_by_timestamp_desc_def)
qed

theorem listing_contract_witness:
  "to_Post two_posts_db post_a \<in> set (list_posts two_posts_db) \<and>
   likes_count (to_Post two_posts_db post_a) = 1 \<and>
   map id_post (list_posts two_posts_db) = [''b'', ''a''] \<and>
   sorted_wrt (\<lambda>a b. timestamp a \<ge> timestamp b) (list_posts two_posts_db) \<and>
   get_user_posts ''nobody'' two_posts_db = []"
proof -
  note t = listing_contract [of two_posts_db "''nobody''"]
  have m: "to_Post two_posts_db post_a \<in> set (list_posts two_posts_db)"
    by code_simp
  have ids: "map id_post (list_posts two_posts_db) = [''b'', ''a'']"
    by code_simp
  have c: "int (size (filter_mset (\<lambda>l. post_id l = id_post (to_Post two_posts_db post_a))
              (mset (likes two_posts_db)))) = 1"
    by (simp add: two_posts_db_def to_Post_def post_a_def like_1_def)
  have n: "''nobody'' \<notin> owner_username ` set (posts two_posts_db)"
    by (simp add: two_posts_db_def post_a_def post_b_def)
  from t m c have 1: "likes_count (to_Post two_posts_db post_a) = 1" by auto
  from t have 2: "sorted_wrt (\<lambda>a b. timestamp a \<ge> timestamp b) (list_posts two_posts_db)"
    by blast
  from t n have 3: "get_user_posts ''nobody'' two_posts_db = []" by blast
  from m ids 1 2 3 show ?thesis by blast
qed

section \<open>Creating a post\<close>




section \<open>Invariants of the reachable states\<close>

lemma foldl_handle_invariant:
  assumes step: "\<And>d r. P d \<Longrightarrow> P (handle d r)"
  shows "P d \<Longrightarrow> P (foldl handle d reqs)"
  by (induction reqs arbitrary: d) (auto intro: step)

subsection \<open>No like without its post\<close>

lemma no_dangling_create: "no_dangling d \<Longrightarrow> no_dangling (snd (create_post t u i n d))"
  by (auto simp: no_dangling_def create_post_def Let_def)

lemma no_dangling_delete: "no_dangling d \<Longrightarrow> no_dangling (snd (delete_post pid u d))"
proof (cases "post_first d pid")
  case None
  assume "no_dangling d"
  with None show ?thesis by (simp add: delete_post_def)
next
  case (Some p)
  assume nd: "no_dangling d"
  from Some have p: "id_post p = pid" using post_first_SomeD by blast
  show ?thesis
  proof (cases "owner_id p = id_user u")
    case False
    with Some nd show ?thesis by (simp add: delete_post_def)
  next
    case True
    have "\<forall>l \<in> set (filter (\<lambda>l. post_id l \<noteq> pid) (likes d)).
            post_id l \<in> id_post ` set (filter (\<lambda>q. id_post q \<noteq> pid) (posts d))"
      using nd by (auto simp: no_dangling_def)
    with Some True p show ?thesis
      by (simp add: delete_post_def no_dangling_def)
  qed
qed

lemma no_dangling_like: "no_dangling d \<Longrightarrow> no_dangling (snd (like_post pid u d))"
proof -
  assume nd: "no_dangling d"
  show ?thesis
  proof (cases "post_first d pid")
    case None
    with nd show ?thesis by (simp add: like_post_def)
  next
    case (Some p)
    then have "pid \<in> id_post ` set (posts d)" using post_first_SomeD by blast
    with Some nd show ?thesis
      by (cases "like_first d pid (id_user u)") (auto simp: like_post_def no_dangling_def)
  qed
qed

lemma no_dangling_unlike: "no_dangling d \<Longrightarrow> no_dangling (snd (unlike_post pid u d))"
  by (cases "post_first d pid"; cases "like_first d pid (id_user u)")
     (auto simp: unlike_post_def no_dangling_def)

lemma no_dangling_handle: "no_dangling d \<Longrightarrow> no_dangling (handle d r)"
  by (cases r)
     (simp_all add: no_dangling_create no_dangling_delete no_dangling_like no_dangling_unlike)

lemma no_dangling_empty: "no_dangling empty_db"
  by (simp add: no_dangling_def empty_db_def)

lemma delete_post_success:
  assumes "fst (delete_post pid u d) = Inr ()"
  shows "\<exists>p. post_first d pid = Some p \<and> owner_id p = id_user u \<and>
           snd (delete_post pid u d) =
             \<lparr>posts = filter (\<lambda>q. id_post q \<noteq> pid) (posts d),
              likes = filter (\<lambda>l. post_id l \<noteq> pid) (likes d)\<rparr>"
proof (cases "post_first d pid")
  case None
  with assms show ?thesis by (simp add: delete_post_def)
next
  case (Some p)
  then have "id_post p = pid" using post_first_SomeD by blast
  with Some assms show ?thesis
    by (cases "owner_id p = id_user u") (simp_all add: delete_post_def)
qed

text \<open>
  C1. In the state after any sequence of requests, starting from the empty tables,
  every like references a stored post; every single request keeps that property; and
  a successful \<open>delete_post\<close> is one transition after which neither the post nor any
  like that references it is stored, all other rows being kept.
\<close>

theorem no_dangling_invariant:
  "no_dangling (run reqs) \<and>
   (\<forall>d r. no_dangling d \<longrightarrow> no_dangling (handle d r)) \<and>
   (\<forall>d pid u. fst (delete_post pid u d) = Inr () \<longrightarrow>
      pid \<notin> id_post ` set (posts (snd (delete_post pid u d))) \<and>
      pid \<notin> post_id ` set (likes (snd (delete_post pid u d))) \<and>
      posts (snd (delete_post pid u d)) = filter (\<lambda>q. id_post q \<noteq> pid) (posts d) \<and>
      likes (snd (delete_post pid u d)) = filter (\<lambda>l. post_id l \<noteq> pid) (likes d))"
proof (intro conjI allI impI)
  show "no_dangling (run reqs)"
    unfolding run_def
    by (rule foldl_handle_invariant [where P = no_dangling, OF no_dangling_handle no_dangling_empty])
next
  fix d r
  assume "no_dangling d"
  then show "no_dangling (handle d r)" by (rule no_dangling_handle)
next
  fix d pid u
  assume ok: "fst (delete_post pid u d) = Inr ()"
  then have s: "snd (delete_post pid u d) =
             \<lparr>posts = filter (\<lambda>q. id_post q \<noteq> pid) (posts d),
              likes = filter (\<lambda>l. post_id l \<noteq> pid) (likes d)\<rparr>"
    using delete_post_success by blast
  show "pid \<notin> id_post ` set (posts (snd (delete_post pid u d)))"
    by (auto simp: s)
  show "pid \<notin> post_id ` set (likes (snd (delete_post pid u d)))"
    by (auto simp: s)
  show "posts (snd (delete_post pid u d)) = filter (\<lambda>q. id_post q \<noteq> pid) (posts d)"
    by (simp add: s)
  show "likes (snd (delete_post pid u d)) = filter (\<lambda>l. post_id l \<noteq> pid) (likes d)"
    by (simp add: s)
qed

theorem no_dangling_invariant_witness:
  "likes (run example_requests) = [\<lparr>id_like = 2, user_id = ''1'', post_id = ''b''\<rparr>] \<and>
   no_dangling (run example_requests) \<and>
   no_dangling (handle (run example_requests) (DeletePost ''b'' user2)) \<and>
   fst (delete_post ''a'' user1 example_db) = Inr () \<and>
   ''a'' \<notin> id_post ` set (posts (snd (delete_post ''a'' user1 example_db))) \<and>
   ''a'' \<notin> post_id ` set (likes (snd (delete_post ''a'' user1 example_db)))"
proof -
  note t = no_dangling_invariant [of example_requests]
  have l: "likes (run example_requests) = [\<lparr>id_like = 2, user_id = ''1'', post_id = ''b''\<rparr>]"
    by code_simp
  have ok: "fst (delete_post ''a'' user1 example_db) = Inr ()"
    by code_simp
  from t have 1: "no_dangling (run example_requests)" by blast
  with t have 2: "no_dangling (handle (run example_requests) (DeletePost ''b'' user2))" by blast
  from t ok have 3: "''a'' \<notin> id_post ` set (posts (snd (delete_post ''a'' user1 example_db))) \<and>
      ''a'' \<notin> post_id ` set (likes (snd (delete_post ''a'' user1 example_db)))"
    by blast
  from l ok 1 2 3 show ?thesis by blast
qed

subsection \<open>One like for each user and post\<close>

lemma unique_likes_create: "unique_likes d \<Longrightarrow> unique_likes (snd (create_post t u i n d))"
  by (auto simp: unique_likes_def create_post_def Let_def)

lemma unique_likes_delete: "unique_likes d \<Longrightarrow> unique_likes (snd (delete_post pid u d))"
  by (cases "post_first d pid")
     (auto simp: unique_likes_def delete_post_def distinct_map_filter)

lemma unique_likes_like: "unique_likes d \<Longrightarrow> unique_likes (snd (like_post pid u d))"
proof (cases "post_first d pid")
  case None
  assume "unique_likes d"
  with None show ?thesis by (simp add: like_post_def)
next
  case (Some p)
  assume ul: "unique_likes d"
  show ?thesis
  proof (cases "like_first d pid (id_user u)")
    case (Some l)
    with \<open>post_first d pid = Some p\<close> ul show ?thesis by (simp add: like_post_def)
  next
    case None
    then have "(id_user u, pid) \<notin> (\<lambda>l. (user_id l, post_id l)) ` set (likes d)"
      by (auto simp: like_first_None)
    with None \<open>post_first d pid = Some p\<close> ul show ?thesis
      by (simp add: like_post_def unique_likes_def)
  qed
qed

lemma unique_likes_unlike: "unique_likes d \<Longrightarrow> unique_likes (snd (unlike_post pid u d))"
  by (cases "post_first d pid"; cases "like_first d pid (id_user u)")
     (auto simp: unique_likes_def unlike_post_def distinct_map_filter)

lemma unique_likes_handle: "unique_likes d \<Longrightarrow> unique_likes (handle d r)"
  by (cases r)
     (simp_all add: unique_likes_create unique_likes_delete unique_likes_like unique_likes_unlike)

lemma unique_likes_empty: "unique_likes empty_db"
  by (simp add: unique_likes_def empty_db_def)

lemma primary_keys_create: "primary_keys d \<Longrightarrow> primary_keys (snd (create_post t u i n d))"
  by (auto simp: primary_keys_def create_post_def Let_def)

lemma primary_keys_delete: "primary_keys d \<Longrightarrow> primary_keys (snd (delete_post pid u d))"
  by (cases "post_first d pid")
     (auto simp: primary_keys_def delete_post_def distinct_map_filter)

lemma primary_keys_like: "primary_keys d \<Longrightarrow> primary_keys (snd (like_post pid u d))"
  by (cases "post_first d pid"; cases "like_first d pid (id_user u)")
     (auto simp: primary_keys_def like_post_def next_like_id_fresh)

lemma primary_keys_unlike: "primary_keys d \<Longrightarrow> primary_keys (snd (unlike_post pid u d))"
  by (cases "post_first d pid"; cases "like_first d pid (id_user u)")
     (auto simp: primary_keys_def unlike_post_def distinct_map_filter)

lemma primary_keys_handle: "primary_keys d \<Longrightarrow> primary_keys (handle d r)"
  by (cases r)
     (simp_all add: primary_keys_create primary_keys_delete primary_keys_like primary_keys_unlike)

lemma primary_keys_empty: "primary_keys empty_db"
  by (simp add: primary_keys_def empty_db_def)

lemma like_post_when_liked:
  assumes "pid \<in> id_post ` set (posts d)" and "liked d (id_user u) pid"
  shows "like_post pid u d = (Inl (HTTPException 400 ''Already liked this post''), d)"
proof -
  obtain p where pf: "post_first d pid = Some p" using assms(1) post_first_cases by blast
  from assms(2) have "like_first d pid (id_user u) \<noteq> None"
    by (simp add: like_first_None liked_def)
  then obtain l where "like_first d pid (id_user u) = Some l" by blast
  with pf show ?thesis
    by (simp add: like_post_def HTTP_400_BAD_REQUEST_def)
qed

lemma like_post_success:
  assumes "fst (like_post pid u d) = Inr msg"
  shows "pid \<in> id_post ` set (posts d) \<and>
         snd (like_post pid u d) =
           d\<lparr>likes := likes d @ [\<lparr>id_like = next_like_id (likes d),
                                   user_id = id_user u, post_id = pid\<rparr>]\<rparr>"
proof (cases "post_first d pid")
  case None
  with assms show ?thesis by (simp add: like_post_def)
next
  case (Some p)
  then have "pid \<in> id_post ` set (posts d)" using post_first_SomeD by blast
  with Some assms show ?thesis
    by (cases "like_first d pid (id_user u)") (simp_all add: like_post_def)
qed

lemma like_post_when_not_liked:
  assumes "pid \<in> id_post ` set (posts d)" and "\<not> liked d (id_user u) pid"
  shows "fst (like_post pid u d) = Inr ''Post liked successfully''"
proof -
  obtain p where pf: "post_first d pid = Some p" using assms(1) post_first_cases by blast
  from assms(2) have "like_first d pid (id_user u) = None"
    by (simp add: like_first_None liked_def)
  with pf show ?thesis by (simp add: like_post_def)
qed

lemma unlike_post_when_liked:
  assumes "pid \<in> id_post ` set (posts d)" and "liked d (id_user u) pid"
  shows "\<exists>k. like_first d pid (id_user u) = Some k \<and>
           unlike_post pid u d =
             (Inr ''Post unliked successfully'',
              d\<lparr>likes := filter (\<lambda>l. id_like l \<noteq> id_like k) (likes d)\<rparr>)"
proof -
  obtain p where pf: "post_first d pid = Some p" using assms(1) post_first_cases by blast
  from assms(2) have "like_first d pid (id_user u) \<noteq> None"
    by (simp add: like_first_None liked_def)
  then obtain k where "like_first d pid (id_user u) = Some k" by blast
  with pf show ?thesis by (simp add: unlike_post_def)
qed

lemma unique_pair_same_row:
  assumes "unique_likes d" and "k \<in> set (likes d)" and "l \<in> set (likes d)"
    and "user_id l = user_id k" and "post_id l = post_id k"
  shows "l = k"
proof -
  from assms(1) have "inj_on (\<lambda>l. (user_id l, post_id l)) (set (likes d))"
    by (simp add: unique_likes_def distinct_map)
  with assms(2-5) show ?thesis by (auto dest: inj_onD)
qed

lemma not_liked_after_unlike:
  assumes "unique_likes d" and "pid \<in> id_post ` set (posts d)" and "liked d (id_user u) pid"
  shows "\<not> liked (snd (unlike_post pid u d)) (id_user u) pid \<and>
         posts (snd (unlike_post pid u d)) = posts d"
proof -
  from assms(2,3) obtain k where lf: "like_first d pid (id_user u) = Some k"
    and un: "unlike_post pid u d =
             (Inr ''Post unliked successfully'',
              d\<lparr>likes := filter (\<lambda>l. id_like l \<noteq> id_like k) (likes d)\<rparr>)"
    using unlike_post_when_liked by blast
  from lf have k: "k \<in> set (likes d) \<and> user_id k = id_user u \<and> post_id k = pid"
    by (rule like_first_SomeD)
  have "\<not> (\<exists>l \<in> set (likes d). id_like l \<noteq> id_like k \<and> user_id l = id_user u \<and> post_id l = pid)"
  proof
    assume "\<exists>l \<in> set (likes d). id_like l \<noteq> id_like k \<and> user_id l = id_user u \<and> post_id l = pid"
    then obtain l where l: "l \<in> set (likes d)" "id_like l \<noteq> id_like k"
      "user_id l = id_user u" "post_id l = pid" by blast
    with k assms(1) have "l = k" using unique_pair_same_row [of d k l] by simp
    with l(2) show False by simp
  qed
  then show ?thesis by (auto simp: un liked_def)
qed

lemma exists_liked_create:
  "pid \<in> id_post ` set (posts d) \<and> liked d uid pid \<Longrightarrow>
   pid \<in> id_post ` set (posts (snd (create_post t u i n d))) \<and>
   liked (snd (create_post t u i n d)) uid pid"
  by (auto simp: create_post_def Let_def liked_def)

lemma exists_liked_delete:
  assumes "pid \<in> id_post ` set (posts d) \<and> liked d uid pid" and "p' \<noteq> pid"
  shows "pid \<in> id_post ` set (posts (snd (delete_post p' u d))) \<and>
         liked (snd (delete_post p' u d)) uid pid"
proof (cases "post_first d p'")
  case None
  with assms show ?thesis by (simp add: delete_post_def)
next
  case (Some q)
  then have "id_post q = p'" using post_first_SomeD by blast
  with Some assms show ?thesis
    by (cases "owner_id q = id_user u") (auto simp: delete_post_def liked_def)
qed

lemma exists_liked_like:
  "pid \<in> id_post ` set (posts d) \<and> liked d uid pid \<Longrightarrow>
   pid \<in> id_post ` set (posts (snd (like_post p' u d))) \<and>
   liked (snd (like_post p' u d)) uid pid"
  by (cases "post_first d p'"; cases "like_first d p' (id_user u)")
     (auto simp: like_post_def liked_def)

lemma exists_liked_unlike:
  assumes "primary_keys d" and "pid \<in> id_post ` set (posts d) \<and> liked d uid pid"
    and "\<not> (p' = pid \<and> id_user u = uid)"
  shows "pid \<in> id_post ` set (posts (snd (unlike_post p' u d))) \<and>
         liked (snd (unlike_post p' u d)) uid pid"
proof (cases "post_first d p'")
  case None
  with assms show ?thesis by (simp add: unlike_post_def)
next
  case (Some q)
  show ?thesis
  proof (cases "like_first d p' (id_user u)")
    case None
    with Some assms show ?thesis by (simp add: unlike_post_def)
  next
    case (Some k)
    then have k: "k \<in> set (likes d) \<and> user_id k = id_user u \<and> post_id k = p'"
      by (rule like_first_SomeD)
    from assms(2) obtain l where l: "l \<in> set (likes d)" "user_id l = uid" "post_id l = pid"
      by (auto simp: liked_def)
    with k assms(3) have "l \<noteq> k" by auto
    moreover from assms(1) have "inj_on id_like (set (likes d))"
      by (simp add: primary_keys_def distinct_map)
    ultimately have "id_like l \<noteq> id_like k" using k l(1) by (auto dest: inj_onD)
    with l have "liked (d\<lparr>likes := filter (\<lambda>l. id_like l \<noteq> id_like k) (likes d)\<rparr>) uid pid"
      by (auto simp: liked_def)
    with Some \<open>post_first d p' = Some q\<close> assms(2) show ?thesis
      by (simp add: unlike_post_def)
  qed
qed

lemma holds_like_handle:
  assumes "holds_like uid pid d" and "\<not> removes_like uid pid r"
  shows "holds_like uid pid (handle d r)"
proof -
  from assms(1) have pk: "primary_keys d" and ul: "unique_likes d"
    and el: "pid \<in> id_post ` set (posts d) \<and> liked d uid pid"
    by (simp_all add: holds_like_def)
  have "pid \<in> id_post ` set (posts (handle d r)) \<and> liked (handle d r) uid pid"
  proof (cases r)
    case ListPosts
    with el show ?thesis by simp
  next
    case (GetUserPosts n)
    with el show ?thesis by simp
  next
    case (CreatePost t u i n)
    with exists_liked_create [OF el] show ?thesis by simp
  next
    case (DeletePost p' u)
    with assms(2) have "p' \<noteq> pid" by simp
    with exists_liked_delete [OF el] DeletePost show ?thesis by simp
  next
    case (LikePost p' u)
    with exists_liked_like [OF el] show ?thesis by simp
  next
    case (UnlikePost p' u)
    with assms(2) have "\<not> (p' = pid \<and> id_user u = uid)" by simp
    with exists_liked_unlike [OF pk el] UnlikePost show ?thesis by simp
  qed
  with pk ul show ?thesis
    by (simp add: holds_like_def primary_keys_handle unique_likes_handle)
qed

lemma holds_like_foldl:
  "holds_like uid pid d \<Longrightarrow> \<forall>r \<in> set rs. \<not> removes_like uid pid r \<Longrightarrow>
   holds_like uid pid (foldl handle d rs)"
  by (induction rs arbitrary: d) (auto intro: holds_like_handle)

lemma primary_keys_run: "primary_keys (run reqs)"
  unfolding run_def
  by (rule foldl_handle_invariant [where P = primary_keys, OF primary_keys_handle primary_keys_empty])

lemma unique_likes_run: "unique_likes (run reqs)"
  unfolding run_def
  by (rule foldl_handle_invariant [where P = unique_likes, OF unique_likes_handle unique_likes_empty])

lemma holds_like_after_like:
  assumes "primary_keys d" and "unique_likes d" and "fst (like_post pid u d) = Inr msg"
  shows "holds_like (id_user u) pid (snd (like_post pid u d))"
proof -
  from assms(3) have ex: "pid \<in> id_post ` set (posts d)"
    and s: "snd (like_post pid u d) =
           d\<lparr>likes := likes d @ [\<lparr>id_like = next_like_id (likes d),
                                   user_id = id_user u, post_id = pid\<rparr>]\<rparr>"
    using like_post_success by blast+
  have "liked (snd (like_post pid u d)) (id_user u) pid"
    by (simp add: s liked_def)
  moreover have "posts (snd (like_post pid u d)) = posts d"
    by (simp add: s)
  ultimately show ?thesis
    using assms(1,2) ex
    by (simp add: holds_like_def primary_keys_like unique_likes_like)
qed

text \<open>
  C5. In the state after any sequence of requests no two likes share user and post, and
  every single request keeps that property. When a like succeeds in a reachable state,
  then after any further requests other than that user's unlike of the post and a
  delete of the post, the same like is answered 400 "Already liked this post" and
  changes nothing; the user's unlike then succeeds, and after it the like succeeds
  again.
\<close>

theorem one_like_per_user_and_post:
  "unique_likes (run reqs) \<and>
   (\<forall>d r. unique_likes d \<longrightarrow> unique_likes (handle d r)) \<and>
   (\<forall>pid u rs.
      fst (like_post pid u (run reqs)) = Inr ''Post liked successfully'' \<and>
      (\<forall>r \<in> set rs. \<not> removes_like (id_user u) pid r) \<longrightarrow>
      (let d' = foldl handle (snd (like_post pid u (run reqs))) rs in
         like_post pid u d' = (Inl (HTTPException 400 ''Already liked this post''), d') \<and>
         fst (unlike_post pid u d') = Inr ''Post unliked successfully'' \<and>
         fst (like_post pid u (snd (unlike_post pid u d'))) = Inr ''Post liked successfully''))"
proof (intro conjI allI impI)
  show "unique_likes (run reqs)" by (rule unique_likes_run)
next
  fix d r
  assume "unique_likes d"
  then show "unique_likes (handle d r)" by (rule unique_likes_handle)
next
  fix pid u rs
  assume h: "fst (like_post pid u (run reqs)) = Inr ''Post liked successfully'' \<and>
      (\<forall>r \<in> set rs. \<not> removes_like (id_user u) pid r)"
  define d' where "d' = foldl handle (snd (like_post pid u (run reqs))) rs"
  from h have "holds_like (id_user u) pid (snd (like_post pid u (run reqs)))"
    using holds_like_after_like [OF primary_keys_run unique_likes_run] by blast
  with h have "holds_like (id_user u) pid d'"
    unfolding d'_def by (intro holds_like_foldl) simp_all
  then have ul: "unique_likes d'" and ex: "pid \<in> id_post ` set (posts d')"
    and lk: "liked d' (id_user u) pid"
    by (simp_all add: holds_like_def)
  have 1: "like_post pid u d' = (Inl (HTTPException 400 ''Already liked this post''), d')"
    using ex lk by (rule like_post_when_liked)
  have 2: "fst (unlike_post pid u d') = Inr ''Post unliked successfully''"
    using unlike_post_when_liked [OF ex lk] by auto
  have "\<not> liked (snd (unlike_post pid u d')) (id_user u) pid \<and>
         posts (snd (unlike_post pid u d')) = posts d'"
    using ul ex lk by (rule not_liked_after_unlike)
  with ex have 3: "fst (like_post pid u (snd (unlike_post pid u d'))) = Inr ''Post liked successfully''"
    by (intro like_post_when_not_liked) simp_all
  from 1 2 3 show "let d' = foldl handle (snd (like_post pid u (run reqs))) rs in
         like_post pid u d' = (Inl (HTTPException 400 ''Already liked this post''), d') \<and>
         fst (unlike_post pid u d') = Inr ''Post unliked successfully'' \<and>
         fst (like_post pid u (snd (unlike_post pid u d'))) = Inr ''Post liked successfully''"
    by (simp add: d'_def Let_def)
qed

theorem one_like_per_user_and_post_witness:
  "unique_likes (run example_requests) \<and>
   fst (like_post ''b'' user2 (run example_requests)) = Inr ''Post liked successfully'' \<and>
   (let d' = foldl handle (snd (like_post ''b'' user2 (run example_requests)))
               [UnlikePost ''b'' user1, ListPosts]
    in like_post ''b'' user2 d' = (Inl (HTTPException 400 ''Already liked this post''), d') \<and>
       fst (unlike_post ''b'' user2 d') = Inr ''Post unliked successfully'' \<and>
       fst (like_post ''b'' user2 (snd (unlike_post ''b'' user2 d'))) =
         Inr ''Post liked successfully'')"
proof -
  note t = one_like_per_user_and_post [of example_requests]
  have ok: "fst (like_post ''b'' user2 (run example_requests)) = Inr ''Post liked successfully''"
    by code_simp
  have rs: "\<forall>r \<in> set [UnlikePost ''b'' user1, ListPosts]. \<not> removes_like (id_user user2) ''b'' r"
    by (simp add: user1_def user2_def)
  from t have 1: "unique_likes (run example_requests)" by blast
  from t ok rs have 2: "let d' = foldl handle (snd (like_post ''b'' user2 (run example_requests)))
               [UnlikePost ''b'' user1, ListPosts]
    in like_post ''b'' user2 d' = (Inl (HTTPException 400 ''Already liked this post''), d') \<and>
       fst (unlike_post ''b'' user2 d') = Inr ''Post unliked successfully'' \<and>
       fst (like_post ''b'' user2 (snd (unlike_post ''b'' user2 d'))) =
         Inr ''Post liked successfully''"
    by blast
  from ok 1 2 show ?thesis by blast
qed

end
